theory Spec2Isabelle
  imports Complex_Main "HOL-Library.Word"
begin

section \<open>The Linux AIO disk vdev backend (lib/libzpool/vdev_disk_aio.c)\<close>

text \<open>
  The backend talks to three collaborators that live outside the file: the libc and
  kernel calls (open, close, ioctl, io_submit, io_getevents, ...), the allocator
  (kmem_alloc, kmem_free) and the I/O pipeline (abd_borrow_buf, zio_interrupt,
  zio_execute, ...). Each call to one of them is recorded as an \<open>event\<close>, in program
  order; what a call answers is an input of the model.
\<close>

subsection \<open>Constants of the system headers\<close>

text \<open>The Linux values of the error numbers the file names.\<close>

definition EINTR :: int where "EINTR = 4"
definition EIO :: int where "EIO = 5"
definition ENXIO :: int where "ENXIO = 6"
definition EAGAIN :: int where "EAGAIN = 11"
definition EINVAL :: int where "EINVAL = 22"
definition ENOTTY :: int where "ENOTTY = 25"
definition ENOSPC :: int where "ENOSPC = 28"
definition ENOTSUP :: int where "ENOTSUP = 95"

text \<open>\<open>SET_ERROR(err)\<close> has the value of its argument (it only adds a trace point).\<close>

definition SET_ERROR :: "int \<Rightarrow> int" where
  "SET_ERROR err = err"

definition AIO_QUEUE_DEPTH :: int where "AIO_QUEUE_DEPTH = 128"

text \<open>
  What the build fixes and the file takes from headers that are not part of it:
  whether \<open>ASSERT\<close> is compiled in, the value of \<open>SPA_MINBLOCKSIZE\<close> and the number
  of the flush command \<open>DKIOCFLUSHWRITECACHE\<close>.
\<close>

record build =
  asserts :: bool
  SPA_MINBLOCKSIZE :: "64 word"
  DKIOCFLUSHWRITECACHE :: int

subsection \<open>Data\<close>

text \<open>The operation kinds of a pipeline request (\<open>zio_type_t\<close>).\<close>

datatype zio_type =
  ZIO_TYPE_NULL | ZIO_TYPE_READ | ZIO_TYPE_WRITE | ZIO_TYPE_FREE | ZIO_TYPE_CLAIM
  | ZIO_TYPE_IOCTL

text \<open>
  The fields of \<open>zio_t\<close> the backend reads or writes. \<open>io_error\<close> is a C \<open>int\<close>,
  \<open>io_size\<close> and \<open>io_offset\<close> are \<open>uint64_t\<close>; \<open>io_abd\<close> names the request's
  data buffer.
\<close>

record zio =
  io_type :: zio_type
  io_cmd :: int
  io_abd :: nat
  io_size :: "64 word"
  io_offset :: "64 word"
  io_error :: int

record vdev_disk_aio =
  vda_fd :: int

text \<open>The kernel control block of a task, as the \<open>io_prep_*\<close> call left it.\<close>

datatype iocb =
  Iocb_unprepared
  | Iocb_fsync int
  | Iocb_pwrite int nat "64 word" "64 word"
  | Iocb_pread int nat "64 word" "64 word"

text \<open>
  \<open>aio_task_t\<close>. The task points at its request; the model carries the request itself.
  \<open>buf\<close> is \<open>None\<close> for the NULL pointer and \<open>Some a\<close> for the buffer borrowed from
  the data buffer \<open>a\<close>.
\<close>

record aio_task =
  task_zio :: zio
  buf :: "nat option"
  task_iocb :: iocb

datatype vdev_aux = VDEV_AUX_NONE | VDEV_AUX_OPEN_FAILED | VDEV_AUX_BAD_LABEL

text \<open>
  The fields of \<open>vdev_t\<close> the backend uses. \<open>vdev_tsd\<close> is the pointer to the device
  handle (\<open>None\<close> for NULL); \<open>spa_writable\<close> stands for
  \<open>(spa_mode(vd->vdev_spa) & FWRITE) != 0\<close>.
\<close>

record vdev =
  vdev_path :: "string option"
  vdev_tsd :: "vdev_disk_aio option"
  vdev_reopening :: bool
  vdev_nonrot :: bool
  vs_aux :: vdev_aux
  spa_writable :: bool

datatype ioctl_request = BLKSSZGET | BLKGETSIZE64 | BLKROTATIONAL

text \<open>The calls the backend makes to its collaborators.\<close>

datatype event =
  Kmem_alloc_vda
  | Kmem_free_vda
  | Sys_open string bool
  | Sys_close int
  | Sys_ioctl int ioctl_request
  | Kmem_alloc_task
  | Kmem_free_task
  | Abd_borrow_buf nat "64 word"
  | Abd_borrow_buf_copy nat "64 word"
  | Abd_return_buf nat "nat option" "64 word"
  | Abd_return_buf_copy nat "nat option" "64 word"
  | Io_submit iocb
  | Zio_interrupt
  | Zio_execute

text \<open>
  How a call of a backend function ends: it returns, a compiled-in \<open>ASSERT\<close> fails
  and aborts the process, or it dereferences a NULL handle.
\<close>

datatype 'a outcome = Returned 'a | Assert_failed | Null_deref

subsection \<open>Completion: \<open>vdev_disk_aio_done\<close>\<close>

text \<open>
  \<open>res\<close> is an \<open>unsigned long\<close>: the kernel's signed result arrives as the 64-bit
  word of the same bits. Storing the \<open>unsigned long\<close> value \<open>-res\<close> in the \<open>int\<close>
  field \<open>io_error\<close> keeps its low 32 bits, read as a signed number.
\<close>

definition int_of_ulong :: "64 word \<Rightarrow> int" where
  "int_of_ulong w = sint (ucast w :: 32 word)"

text \<open>Lines 172-190: the buffer is given back and the error field is settled.\<close>

definition done_settle :: "build \<Rightarrow> aio_task \<Rightarrow> 64 word \<Rightarrow> unit outcome \<times> zio \<times> event list" where
  "done_settle b task res =
    (let zio = task_zio task in
     if io_type zio = ZIO_TYPE_IOCTL then
       (if res \<noteq> 0 then (Returned (), zio\<lparr>io_error := SET_ERROR (int_of_ulong (- res))\<rparr>, [])
        else (Returned (), zio, []))
     else
       (let returned =
          (if io_type zio = ZIO_TYPE_READ then
             (Returned (), [Abd_return_buf_copy (io_abd zio) (buf task) (io_size zio)])
           else if io_type zio = ZIO_TYPE_WRITE then
             (Returned (), [Abd_return_buf (io_abd zio) (buf task) (io_size zio)])
           else if asserts b then (Assert_failed, [])
           else (Returned (), []))
        in case returned of
          (Returned u, evs) \<Rightarrow>
            if res < 0 then (Returned (), zio\<lparr>io_error := SET_ERROR (int_of_ulong (- res))\<rparr>, evs)
            else if res \<noteq> io_size zio then (Returned (), zio\<lparr>io_error := SET_ERROR ENOSPC\<rparr>, evs)
            else (Returned (), zio, evs)
        | (failed, evs) \<Rightarrow> (failed, zio, evs)))"

text \<open>Lines 200-205: the request re-enters the pipeline and the task is freed.\<close>

definition vdev_disk_aio_done :: "build \<Rightarrow> aio_task \<Rightarrow> 64 word \<Rightarrow> unit outcome \<times> zio \<times> event list" where
  "vdev_disk_aio_done b task res =
    (case done_settle b task res of
       (Returned u, zio, evs) \<Rightarrow>
         (Returned (), zio,
          evs @ [if io_type zio = ZIO_TYPE_READ then Zio_interrupt else Zio_execute]
              @ [Kmem_free_task])
     | (failed, zio, evs) \<Rightarrow> (failed, zio, evs))"

subsection \<open>Submission: \<open>vdev_disk_aio_start\<close>\<close>

text \<open>
  What the surroundings answer during one submission: \<open>vdev_readable(vd)\<close>, the
  global \<open>zfs_nocacheflush\<close>, and the value \<open>io_submit\<close> returns.
\<close>

record start_env =
  vdev_readable :: bool
  zfs_nocacheflush :: bool
  io_submit_ret :: int

text \<open>
  Lines 274-301, the first \<open>switch\<close>. A branch that ends in \<open>return\<close> settles the
  request (\<open>Settled\<close>); a branch that ends in \<open>break\<close> goes on to the code after the
  \<open>switch\<close> (\<open>Proceed\<close>). The \<open>default\<close> branch ends in \<open>break\<close>.
\<close>

datatype checked = Settled zio "event list" | Proceed zio "event list"

definition check_operation :: "build \<Rightarrow> start_env \<Rightarrow> zio \<Rightarrow> checked" where
  "check_operation b env zio =
    (case io_type zio of
       ZIO_TYPE_IOCTL \<Rightarrow>
         if \<not> vdev_readable env then
           Settled (zio\<lparr>io_error := SET_ERROR ENXIO\<rparr>) [Zio_interrupt]
         else if io_cmd zio \<noteq> DKIOCFLUSHWRITECACHE b then
           Settled (zio\<lparr>io_error := SET_ERROR ENOTSUP\<rparr>) [Zio_execute]
         else if zfs_nocacheflush env then
           Settled zio [Zio_execute]
         else Proceed zio []
     | ZIO_TYPE_WRITE \<Rightarrow> Proceed zio []
     | ZIO_TYPE_READ \<Rightarrow> Proceed zio []
     | _ \<Rightarrow> Proceed (zio\<lparr>io_error := SET_ERROR ENOTSUP\<rparr>) [Zio_interrupt])"

text \<open>
  Lines 306-329: the task is allocated and its control block prepared. The handle
  \<open>vda\<close> is dereferenced only by the \<open>io_prep_*\<close> calls, after the buffer was
  borrowed.
\<close>

definition prepare_task :: "build \<Rightarrow> vdev \<Rightarrow> zio \<Rightarrow> aio_task outcome \<times> event list" where
  "prepare_task b vd zio =
    (let vda = vdev_tsd vd;
         task = \<lparr>task_zio = zio, buf = None, task_iocb = Iocb_unprepared\<rparr>
     in case io_type zio of
       ZIO_TYPE_IOCTL \<Rightarrow>
         (case vda of
            None \<Rightarrow> (Null_deref, [Kmem_alloc_task])
          | Some h \<Rightarrow> (Returned (task\<lparr>task_iocb := Iocb_fsync (vda_fd h)\<rparr>), [Kmem_alloc_task]))
     | ZIO_TYPE_WRITE \<Rightarrow>
         (case vda of
            None \<Rightarrow> (Null_deref, [Kmem_alloc_task, Abd_borrow_buf_copy (io_abd zio) (io_size zio)])
          | Some h \<Rightarrow>
             (Returned (task\<lparr>buf := Some (io_abd zio),
                 task_iocb := Iocb_pwrite (vda_fd h) (io_abd zio) (io_size zio) (io_offset zio)\<rparr>),
              [Kmem_alloc_task, Abd_borrow_buf_copy (io_abd zio) (io_size zio)]))
     | ZIO_TYPE_READ \<Rightarrow>
         (case vda of
            None \<Rightarrow> (Null_deref, [Kmem_alloc_task, Abd_borrow_buf (io_abd zio) (io_size zio)])
          | Some h \<Rightarrow>
             (Returned (task\<lparr>buf := Some (io_abd zio),
                 task_iocb := Iocb_pread (vda_fd h) (io_abd zio) (io_size zio) (io_offset zio)\<rparr>),
              [Kmem_alloc_task, Abd_borrow_buf (io_abd zio) (io_size zio)]))
     | _ \<Rightarrow>
         if asserts b then (Assert_failed, [Kmem_alloc_task])
         else (Returned task, [Kmem_alloc_task]))"

text \<open>Lines 335-343: the control block is submitted and a refusal is settled.\<close>

definition submit_task :: "start_env \<Rightarrow> aio_task \<Rightarrow> zio \<Rightarrow> zio \<times> event list" where
  "submit_task env task zio =
    (let error = io_submit_ret env in
     if error = 0 then
       (zio\<lparr>io_error := SET_ERROR EAGAIN\<rparr>, [Io_submit (task_iocb task), Zio_interrupt])
     else if error < 0 then
       (zio\<lparr>io_error := SET_ERROR (- error)\<rparr>, [Io_submit (task_iocb task), Zio_interrupt])
     else (zio, [Io_submit (task_iocb task)]))"

definition vdev_disk_aio_start ::
  "build \<Rightarrow> start_env \<Rightarrow> vdev \<Rightarrow> zio \<Rightarrow> unit outcome \<times> zio \<times> event list" where
  "vdev_disk_aio_start b env vd zio =
    (case check_operation b env zio of
       Settled zio' evs \<Rightarrow> (Returned (), zio', evs)
     | Proceed zio' evs \<Rightarrow>
         (case prepare_task b vd zio' of
            (Returned task, evs2) \<Rightarrow>
              (let (zio'', evs3) = submit_task env task zio'
               in (Returned (), zio'', evs @ evs2 @ evs3))
          | (Assert_failed, evs2) \<Rightarrow> (Assert_failed, zio', evs @ evs2)
          | (Null_deref, evs2) \<Rightarrow> (Null_deref, zio', evs @ evs2)))"

text \<open>The pipeline re-entries among the calls, and what is still held at the end.\<close>

definition callbacks :: "event list \<Rightarrow> event list" where
  "callbacks evs = filter (\<lambda>e. e = Zio_interrupt \<or> e = Zio_execute) evs"

definition is_borrow :: "event \<Rightarrow> bool" where
  "is_borrow e = (case e of Abd_borrow_buf a n \<Rightarrow> True | Abd_borrow_buf_copy a n \<Rightarrow> True
                  | _ \<Rightarrow> False)"

definition is_return :: "event \<Rightarrow> bool" where
  "is_return e = (case e of Abd_return_buf a p n \<Rightarrow> True | Abd_return_buf_copy a p n \<Rightarrow> True
                  | _ \<Rightarrow> False)"

definition tasks_held :: "event list \<Rightarrow> int" where
  "tasks_held evs = int (count_list evs Kmem_alloc_task) - int (count_list evs Kmem_free_task)"

definition buffers_held :: "event list \<Rightarrow> int" where
  "buffers_held evs = int (length (filter is_borrow evs)) - int (length (filter is_return evs))"

subsection \<open>Opening a device: \<open>vdev_disk_aio_open\<close>\<close>

text \<open>
  A system call either succeeds with a value or fails, returning -1 with \<open>errno\<close> set.
  A successful call leaves \<open>errno\<close> as it was.
\<close>

datatype 'a reply = Ok 'a | Fail int

text \<open>
  What the operating system answers during one open: the \<open>errno\<close> found on entry,
  the descriptor \<open>open\<close> returns, the values the three \<open>ioctl\<close> queries store
  through their last argument, and the answer of \<open>close\<close>. The answer to
  \<open>BLKSSZGET\<close> is the value \<open>*ashift\<close> holds after the call: the sector size the
  device reports.
\<close>

record os =
  errno0 :: int
  open_reply :: "int reply"
  blkssz_reply :: "64 word reply"
  blkgetsize_reply :: "64 word reply"
  blkrot_reply :: "16 word reply"
  close_reply :: "unit reply"

text \<open>The three out-parameters \<open>psize\<close>, \<open>max_psize\<close> and \<open>ashift\<close>.\<close>

record geom =
  psize :: "64 word"
  max_psize :: "64 word"
  ashift :: "64 word"

fun errno_after :: "int \<Rightarrow> 'a reply \<Rightarrow> int" where
  "errno_after errno (Ok v) = errno"
| "errno_after errno (Fail e) = e"

text \<open>
  Modelled from the spec: the number of binary digits of a number, which is what
  \<open>highbit64\<close> below returns; the function itself is not among the source files.
\<close>

fun highbit_nat :: "nat \<Rightarrow> nat" where
  "highbit_nat n = (if n = 0 then 0 else Suc (highbit_nat (n div 2)))"

text \<open>
  Modelled from the spec: \<open>highbit64\<close> is declared in a header that is not among the
  source files. The specification calls \<open>highbit64(x) - 1\<close> the log2 exponent of the
  sector size; accordingly \<open>highbit64 i\<close> is the position, counted from 1, of the
  highest bit set in \<open>i\<close>, and 0 when no bit is set.
\<close>

definition highbit64 :: "64 word \<Rightarrow> int" where
  "highbit64 i = int (highbit_nat (unat i))"

text \<open>
  Lines 126-146, the code at the label \<open>skip_open\<close>, entered with the handle
  \<open>vda\<close>. A failing query sets \<open>errno\<close>; the code then runs \<open>close\<close> on the
  descriptor, sets \<open>vs_aux\<close> and returns the \<open>errno\<close> found after the \<open>close\<close>.
  Nothing else is undone.
\<close>

definition open_failed :: "os \<Rightarrow> int \<Rightarrow> vdev_disk_aio \<Rightarrow> vdev \<Rightarrow> geom \<Rightarrow> event list
    \<Rightarrow> int outcome \<times> vdev \<times> geom \<times> event list" where
  "open_failed os errno vda vd g evs =
    (Returned (SET_ERROR (errno_after errno (close_reply os))),
     vd\<lparr>vs_aux := VDEV_AUX_OPEN_FAILED\<rparr>, g, evs @ [Sys_close (vda_fd vda)])"

definition skip_open :: "build \<Rightarrow> os \<Rightarrow> vdev_disk_aio \<Rightarrow> vdev \<Rightarrow> geom \<Rightarrow> event list
    \<Rightarrow> int outcome \<times> vdev \<times> geom \<times> event list" where
  "skip_open b os vda vd g evs =
    (case blkssz_reply os of
       Fail e \<Rightarrow> open_failed os e vda vd g (evs @ [Sys_ioctl (vda_fd vda) BLKSSZGET])
     | Ok ssz \<Rightarrow>
        (let g1 = g\<lparr>ashift := ssz\<rparr>;
             evs1 = evs @ [Sys_ioctl (vda_fd vda) BLKSSZGET]
         in case blkgetsize_reply os of
           Fail e \<Rightarrow> open_failed os e vda vd g1 (evs1 @ [Sys_ioctl (vda_fd vda) BLKGETSIZE64])
         | Ok sz \<Rightarrow>
            (let g2 = g1\<lparr>psize := sz\<rparr>;
                 evs2 = evs1 @ [Sys_ioctl (vda_fd vda) BLKGETSIZE64]
             in case blkrot_reply os of
               Fail e \<Rightarrow> open_failed os e vda vd g2 (evs2 @ [Sys_ioctl (vda_fd vda) BLKROTATIONAL])
             | Ok isrot \<Rightarrow>
                (let g3 = g2\<lparr>ashift :=
                            word_of_int (highbit64 (max (ashift g2) (SPA_MINBLOCKSIZE b)) - 1)\<rparr>;
                     g4 = g3\<lparr>max_psize := psize g3\<rparr>
                 in (Returned 0, vd\<lparr>vdev_nonrot := (isrot = 0)\<rparr>, g4,
                     evs2 @ [Sys_ioctl (vda_fd vda) BLKROTATIONAL])))))"

text \<open>
  Lines 90-123. \<open>vdev_path[0]\<close> of the empty string is the terminating NUL, which is
  not a slash. \<open>open\<close> is called with \<open>O_RDWR|O_DIRECT\<close> when the pool is writable
  and with \<open>O_RDONLY|O_DIRECT\<close> otherwise.
\<close>

definition starts_with_slash :: "string \<Rightarrow> bool" where
  "starts_with_slash path = (case path of [] \<Rightarrow> False | c # cs \<Rightarrow> c = CHR ''/'')"

definition bad_label :: "vdev \<Rightarrow> geom \<Rightarrow> int outcome \<times> vdev \<times> geom \<times> event list" where
  "bad_label vd g = (Returned (SET_ERROR EINVAL), vd\<lparr>vs_aux := VDEV_AUX_BAD_LABEL\<rparr>, g, [])"

definition vdev_disk_aio_open :: "build \<Rightarrow> os \<Rightarrow> vdev \<Rightarrow> geom
    \<Rightarrow> int outcome \<times> vdev \<times> geom \<times> event list" where
  "vdev_disk_aio_open b os vd g =
    (case vdev_path vd of
       None \<Rightarrow> bad_label vd g
     | Some path \<Rightarrow>
        (if \<not> starts_with_slash path then bad_label vd g
         else
          (case vdev_tsd vd of
             Some vda \<Rightarrow>
               (if asserts b \<and> \<not> vdev_reopening vd then (Assert_failed, vd, g, [])
                else skip_open b os vda vd g [])
           | None \<Rightarrow>
              (let evs = [Kmem_alloc_vda, Sys_open path (spa_writable vd)];
                   fd = (case open_reply os of Ok d \<Rightarrow> d | Fail e \<Rightarrow> - 1);
                   vda = \<lparr>vda_fd = fd\<rparr>
               in if fd < 0 then
                    (Returned (SET_ERROR (errno_after (errno0 os) (open_reply os))),
                     vd\<lparr>vs_aux := VDEV_AUX_OPEN_FAILED\<rparr>, g, evs @ [Kmem_free_vda])
                  else skip_open b os vda (vd\<lparr>vdev_tsd := Some vda\<rparr>) g evs))))"

text \<open>The handles allocated and not freed by a run of calls.\<close>

definition handles_held :: "event list \<Rightarrow> int" where
  "handles_held evs = int (count_list evs Kmem_alloc_vda) - int (count_list evs Kmem_free_vda)"

subsection \<open>The context: \<open>vdev_disk_aio_init\<close>, \<open>vdev_disk_aio_poll\<close>, \<open>vdev_disk_aio_fini\<close>\<close>

text \<open>
  Two threads share the globals \<open>io_ctx\<close>, \<open>stop_polling\<close> and \<open>poller_tid\<close>: the
  controlling thread, which runs \<open>vdev_disk_aio_init\<close> and later
  \<open>vdev_disk_aio_fini\<close>, and the poller thread, which runs \<open>vdev_disk_aio_poll\<close>.
  Each thread is a program counter over the statements of its function; a step runs
  one statement of one thread, and a schedule says which thread runs next. Reads and
  writes of the two \<open>volatile\<close> globals are taken to be atomic and to be seen by the
  other thread at once.
\<close>

text \<open>
  The controlling thread. \<open>Fini_set_stop\<close> is also where the thread stays between
  the return of \<open>vdev_disk_aio_init\<close> and the call of \<open>vdev_disk_aio_fini\<close>.
\<close>

datatype ctl_pc =
  Init_io_setup
  | Init_setup_failed
  | Init_clear_stop
  | Init_thread_create
  | Init_store_tid
  | Fini_set_stop
  | Fini_test_tid
  | Fini_nanosleep
  | Fini_io_destroy
  | Fini_clear_ctx
  | Fini_returned

datatype poller_pc =
  Poll_not_created
  | Poll_alloc_events
  | Poll_test_stop
  | Poll_io_getevents
  | Poll_dispatch int
  | Poll_free_events
  | Poll_clear_tid
  | Poll_thread_exit
  | Poll_exited

datatype queue_state = Queue_absent | Queue_open | Queue_destroyed

text \<open>
  \<open>io_ctx_set\<close> says that \<open>io_ctx\<close> holds a queue handle; \<open>queue\<close> is the state of
  the kernel queue itself; \<open>slept_ns\<close> adds up the \<open>nanosleep\<close> calls of
  \<open>vdev_disk_aio_fini\<close>; \<open>aborted\<close> is set when a compiled-in assertion fails.
\<close>

record aio_context =
  io_ctx_set :: bool
  queue :: queue_state
  stop_polling :: bool
  poller_tid :: "64 word"
  cpc :: ctl_pc
  ppc :: poller_pc
  slept_ns :: nat
  aborted :: bool

text \<open>What the kernel and the thread library answer to \<open>vdev_disk_aio_init\<close>.\<close>

record init_env =
  io_setup_ret :: int
  thread_create_ret :: "64 word"

definition initial :: aio_context where
  "initial = \<lparr>io_ctx_set = False, queue = Queue_absent, stop_polling = False, poller_tid = 0,
     cpc = Init_io_setup, ppc = Poll_not_created, slept_ns = 0, aborted = False\<rparr>"

text \<open>One statement of \<open>vdev_disk_aio_init\<close> (lines 372-381) or \<open>vdev_disk_aio_fini\<close> (lines 398-403).\<close>

definition ctl_step :: "build \<Rightarrow> init_env \<Rightarrow> aio_context \<Rightarrow> aio_context" where
  "ctl_step b k s =
    (case cpc s of
       Init_io_setup \<Rightarrow>
         if io_setup_ret k \<noteq> 0 then s\<lparr>cpc := Init_setup_failed\<rparr>
         else s\<lparr>io_ctx_set := True, queue := Queue_open, cpc := Init_clear_stop\<rparr>
     | Init_setup_failed \<Rightarrow>
         if asserts b then s\<lparr>aborted := True\<rparr> else s\<lparr>cpc := Fini_set_stop\<rparr>
     | Init_clear_stop \<Rightarrow> s\<lparr>stop_polling := False, cpc := Init_thread_create\<rparr>
     | Init_thread_create \<Rightarrow> s\<lparr>ppc := Poll_alloc_events, cpc := Init_store_tid\<rparr>
     | Init_store_tid \<Rightarrow> s\<lparr>poller_tid := thread_create_ret k, cpc := Fini_set_stop\<rparr>
     | Fini_set_stop \<Rightarrow> s\<lparr>stop_polling := True, cpc := Fini_test_tid\<rparr>
     | Fini_test_tid \<Rightarrow>
         if poller_tid s \<noteq> 0 then s\<lparr>cpc := Fini_nanosleep\<rparr> else s\<lparr>cpc := Fini_io_destroy\<rparr>
     | Fini_nanosleep \<Rightarrow> s\<lparr>slept_ns := slept_ns s + 100000000, cpc := Fini_test_tid\<rparr>
     | Fini_io_destroy \<Rightarrow>
         s\<lparr>queue := (if queue s = Queue_open then Queue_destroyed else queue s),
           cpc := Fini_clear_ctx\<rparr>
     | Fini_clear_ctx \<Rightarrow> s\<lparr>io_ctx_set := False, cpc := Fini_returned\<rparr>
     | Fini_returned \<Rightarrow> s)"

text \<open>
  One statement of \<open>vdev_disk_aio_poll\<close> (lines 219-256); \<open>nr\<close> is what
  \<open>io_getevents\<close> returns when the step is that call. \<open>continue\<close> goes back to the
  test of the \<open>while\<close>, \<open>break\<close> leaves the loop. The completions of one wait are
  handled in one step (\<open>vdev_disk_aio_done\<close> touches none of the globals).
\<close>

definition poller_step :: "build \<Rightarrow> int \<Rightarrow> aio_context \<Rightarrow> aio_context" where
  "poller_step b nr s =
    (case ppc s of
       Poll_not_created \<Rightarrow> s
     | Poll_alloc_events \<Rightarrow> s\<lparr>ppc := Poll_test_stop\<rparr>
     | Poll_test_stop \<Rightarrow>
         if \<not> stop_polling s then s\<lparr>ppc := Poll_io_getevents\<rparr> else s\<lparr>ppc := Poll_free_events\<rparr>
     | Poll_io_getevents \<Rightarrow>
         if nr < 0 then
           (if - nr = EINTR then s\<lparr>ppc := Poll_test_stop\<rparr> else s\<lparr>ppc := Poll_free_events\<rparr>)
         else if asserts b \<and> \<not> nr \<le> AIO_QUEUE_DEPTH then s\<lparr>aborted := True\<rparr>
         else s\<lparr>ppc := Poll_dispatch nr\<rparr>
     | Poll_dispatch n \<Rightarrow> s\<lparr>ppc := Poll_test_stop\<rparr>
     | Poll_free_events \<Rightarrow> s\<lparr>ppc := Poll_clear_tid\<rparr>
     | Poll_clear_tid \<Rightarrow> s\<lparr>poller_tid := 0, ppc := Poll_thread_exit\<rparr>
     | Poll_thread_exit \<Rightarrow> s\<lparr>ppc := Poll_exited\<rparr>
     | Poll_exited \<Rightarrow> s)"

datatype action = Run_ctl | Run_poller int

definition step :: "build \<Rightarrow> init_env \<Rightarrow> action \<Rightarrow> aio_context \<Rightarrow> aio_context" where
  "step b k a s =
    (if aborted s then s
     else case a of Run_ctl \<Rightarrow> ctl_step b k s | Run_poller nr \<Rightarrow> poller_step b nr s)"

fun run :: "build \<Rightarrow> init_env \<Rightarrow> action list \<Rightarrow> aio_context \<Rightarrow> aio_context" where
  "run b k [] s = s"
| "run b k (a # as) s = run b k as (step b k a s)"

text \<open>
  The poller is in its loop from the moment the thread is created until it has left
  the loop, freed its event array and cleared \<open>poller_tid\<close>; what remains after that
  is its call of \<open>thread_exit\<close>.
\<close>

fun poller_running :: "poller_pc \<Rightarrow> bool" where
  "poller_running Poll_not_created = False"
| "poller_running Poll_thread_exit = False"
| "poller_running Poll_exited = False"
| "poller_running p = True"

fun fini_entered :: "ctl_pc \<Rightarrow> bool" where
  "fini_entered Fini_test_tid = True"
| "fini_entered Fini_nanosleep = True"
| "fini_entered Fini_io_destroy = True"
| "fini_entered Fini_clear_ctx = True"
| "fini_entered Fini_returned = True"
| "fini_entered c = False"

fun fini_destroying :: "ctl_pc \<Rightarrow> bool" where
  "fini_destroying Fini_io_destroy = True"
| "fini_destroying Fini_clear_ctx = True"
| "fini_destroying Fini_returned = True"
| "fini_destroying c = False"

subsection \<open>What the operating system promises\<close>

text \<open>
  A failing call sets \<open>errno\<close> to a positive number, and a successful \<open>open\<close> returns
  a descriptor that is not negative. Under this contract \<open>vdev_disk_aio_open\<close>
  returns 0 on the successful path only.
\<close>

fun errno_positive :: "'a reply \<Rightarrow> bool" where
  "errno_positive (Ok v) = True"
| "errno_positive (Fail e) = (0 < e)"

fun descriptor_valid :: "int reply \<Rightarrow> bool" where
  "descriptor_valid (Ok d) = (0 \<le> d)"
| "descriptor_valid (Fail e) = True"

definition os_contract :: "os \<Rightarrow> bool" where
  "os_contract os =
    (errno_positive (open_reply os) \<and> descriptor_valid (open_reply os) \<and>
     errno_positive (blkssz_reply os) \<and> errno_positive (blkgetsize_reply os) \<and>
     errno_positive (blkrot_reply os) \<and> errno_positive (close_reply os))"

subsection \<open>Sample inputs\<close>

definition release_build :: build where
  "release_build = \<lparr>asserts = False, SPA_MINBLOCKSIZE = 512, DKIOCFLUSHWRITECACHE = 1058\<rparr>"

definition debug_build :: build where
  "debug_build = \<lparr>asserts = True, SPA_MINBLOCKSIZE = 512, DKIOCFLUSHWRITECACHE = 1058\<rparr>"

definition request :: "zio_type \<Rightarrow> zio" where
  "request t = \<lparr>io_type = t, io_cmd = 0, io_abd = 1, io_size = 4096, io_offset = 0, io_error = 0\<rparr>"

definition task_of :: "zio_type \<Rightarrow> aio_task" where
  "task_of t = \<lparr>task_zio = request t, buf = Some 1, task_iocb = Iocb_pread 3 1 4096 0\<rparr>"

definition flush_task :: aio_task where
  "flush_task = \<lparr>task_zio = request ZIO_TYPE_IOCTL\<lparr>io_cmd := 1058\<rparr>, buf = None,
     task_iocb = Iocb_fsync 3\<rparr>"

definition opened_vdev :: vdev where
  "opened_vdev = \<lparr>vdev_path = Some ''/dev/sdb'', vdev_tsd = Some \<lparr>vda_fd = 3\<rparr>,
     vdev_reopening = True, vdev_nonrot = False, vs_aux = VDEV_AUX_NONE, spa_writable = True\<rparr>"

definition fresh_vdev :: vdev where
  "fresh_vdev = opened_vdev\<lparr>vdev_tsd := None, vdev_reopening := False\<rparr>"

definition accepting :: start_env where
  "accepting = \<lparr>vdev_readable = True, zfs_nocacheflush = False, io_submit_ret = 1\<rparr>"

definition good_disk :: os where
  "good_disk = \<lparr>errno0 = 0, open_reply = Ok 3, blkssz_reply = Ok 4096,
     blkgetsize_reply = Ok 1048576, blkrot_reply = Ok 1, close_reply = Ok ()\<rparr>"

definition no_geom :: geom where
  "no_geom = \<lparr>psize = 0, max_psize = 0, ashift = 0\<rparr>"

definition kernel_ok :: init_env where
  "kernel_ok = \<lparr>io_setup_ret = 0, thread_create_ret = 7\<rparr>"

text \<open>
  Two schedules. The first runs \<open>vdev_disk_aio_init\<close>, lets the poller reach its wait
  and runs the first statement of \<open>vdev_disk_aio_fini\<close>. The second goes on from
  there: \<open>vdev_disk_aio_fini\<close> finds the poller alive and sleeps, the poller's wait
  returns, it sees the stop flag and winds down, and \<open>vdev_disk_aio_fini\<close> wakes up
  and destroys the queue.
\<close>

definition waiting_schedule :: "action list" where
  "waiting_schedule =
    [Run_ctl, Run_ctl, Run_ctl, Run_ctl, Run_poller 0, Run_poller 0, Run_ctl]"

definition teardown_schedule :: "action list" where
  "teardown_schedule =
    waiting_schedule @
    [Run_ctl, Run_poller 0, Run_poller 0, Run_poller 0, Run_poller 0, Run_poller 0,
     Run_ctl, Run_ctl, Run_ctl]"

subsection \<open>The invariant of the teardown\<close>

text \<open>
  What holds in every state the two threads can reach: once \<open>vdev_disk_aio_fini\<close> is
  past its first statement the stop flag is set; once it is past its wait
  \<open>poller_tid\<close> is 0; after \<open>vdev_disk_aio_init\<close> has stored the thread identity, a
  zero \<open>poller_tid\<close> means the poller has cleared it; the queue is destroyed only by
  \<open>vdev_disk_aio_fini\<close>; and no poller exists before \<open>thread_create\<close>.
\<close>

definition teardown_inv :: "aio_context \<Rightarrow> bool" where
  "teardown_inv s =
    ((fini_entered (cpc s) \<longrightarrow> stop_polling s) \<and>
     (fini_destroying (cpc s) \<longrightarrow> poller_tid s = 0) \<and>
     ((fini_entered (cpc s) \<or> cpc s = Fini_set_stop) \<and> poller_tid s = 0
        \<longrightarrow> \<not> poller_running (ppc s)) \<and>
     (queue s = Queue_destroyed \<longrightarrow> cpc s = Fini_clear_ctx \<or> cpc s = Fini_returned) \<and>
     (cpc s = Init_io_setup \<or> cpc s = Init_setup_failed \<or> cpc s = Init_clear_stop \<or>
      cpc s = Init_thread_create \<longrightarrow> ppc s = Poll_not_created))"

section \<open>Properties\<close>

lemmas sample_defs = release_build_def debug_build_def request_def task_of_def flush_task_def
  opened_vdev_def fresh_vdev_def accepting_def good_disk_def no_geom_def kernel_ok_def

lemmas errno_defs = EINTR_def EIO_def ENXIO_def EAGAIN_def EINVAL_def ENOTTY_def ENOSPC_def
  ENOTSUP_def SET_ERROR_def

lemmas start_defs = vdev_disk_aio_start_def check_operation_def prepare_task_def submit_task_def

lemmas done_defs = vdev_disk_aio_done_def done_settle_def

lemmas open_defs = vdev_disk_aio_open_def skip_open_def open_failed_def bad_label_def
  starts_with_slash_def

lemmas held_defs = tasks_held_def buffers_held_def is_borrow_def is_return_def

subsection \<open>Completion of data operations\<close>

text \<open>
  Claim C1 says that completion handling records the OS error on a read or write
  whose kernel result is negative. In \<open>vdev_disk_aio_done\<close> the result is an
  \<open>unsigned long\<close>, so the test \<open>res < 0\<close> never holds and a negative result falls
  through to the comparison with the byte length: a read of 4096 bytes that the
  kernel fails with \<open>-EIO\<close> ends with \<open>ENOSPC\<close> in its error field, not \<open>EIO\<close>.
\<close>

theorem done_negative_read_result_records_enospc:
  "vdev_disk_aio_done release_build (task_of ZIO_TYPE_READ) (word_of_int (- EIO)) =
     (Returned (), (request ZIO_TYPE_READ)\<lparr>io_error := ENOSPC\<rparr>,
      [Abd_return_buf_copy 1 (Some 1) 4096, Zio_interrupt, Kmem_free_task])
   \<and> ENOSPC \<noteq> EIO"
  by (simp add: done_defs sample_defs errno_defs)

text \<open>
  For every result, not only this one: the error field of a completed read or write
  is left alone when the result equals the byte length and set to \<open>ENOSPC\<close>
  otherwise.
\<close>

lemma done_data_error_field:
  assumes "io_type (task_zio task) = ZIO_TYPE_READ \<or> io_type (task_zio task) = ZIO_TYPE_WRITE"
  shows "fst (snd (vdev_disk_aio_done b task res)) =
    (if res = io_size (task_zio task) then task_zio task
     else (task_zio task)\<lparr>io_error := ENOSPC\<rparr>)"
  using assms by (auto simp add: done_defs SET_ERROR_def Let_def)

subsection \<open>Submission of an unsupported kind\<close>

text \<open>
  Claim C2 says that a request that is neither read, write nor control is rejected
  without a task and without a kernel submission. The \<open>default\<close> branch of the first
  \<open>switch\<close> of \<open>vdev_disk_aio_start\<close> ends in \<open>break\<close>, not \<open>return\<close>: after
  \<open>zio_interrupt\<close> the function goes on, allocates the task, and, where assertions
  are compiled out, submits the unprepared control block; where they are compiled
  in, it aborts after the allocation.
\<close>

theorem start_unsupported_kind_allocates_and_submits:
  "vdev_disk_aio_start release_build accepting opened_vdev (request ZIO_TYPE_FREE) =
     (Returned (), (request ZIO_TYPE_FREE)\<lparr>io_error := ENOTSUP\<rparr>,
      [Zio_interrupt, Kmem_alloc_task, Io_submit Iocb_unprepared])
   \<and> vdev_disk_aio_start debug_build accepting opened_vdev (request ZIO_TYPE_FREE) =
     (Assert_failed, (request ZIO_TYPE_FREE)\<lparr>io_error := ENOTSUP\<rparr>,
      [Zio_interrupt, Kmem_alloc_task])"
  by (simp add: start_defs sample_defs errno_defs)

subsection \<open>A submission the kernel refuses\<close>

text \<open>
  Claim C3 says that a refused submission settles the request with \<open>EAGAIN\<close> (zero
  accepted) or with the kernel's error code (negative return) and leaves neither the
  task nor the borrowed buffer behind. \<open>vdev_disk_aio_start\<close> sets the error and calls
  \<open>zio_interrupt\<close>, and then returns without \<open>kmem_free\<close> and without
  \<open>abd_return_buf\<close>: for a write refused with zero and for a read refused with
  \<open>-EIO\<close>, one task and one buffer are still held when the function returns.
\<close>

theorem start_refused_submission_leaks_task_and_buffer:
  "vdev_disk_aio_start release_build (accepting\<lparr>io_submit_ret := 0\<rparr>) opened_vdev
       (request ZIO_TYPE_WRITE) =
     (Returned (), (request ZIO_TYPE_WRITE)\<lparr>io_error := EAGAIN\<rparr>,
      [Kmem_alloc_task, Abd_borrow_buf_copy 1 4096, Io_submit (Iocb_pwrite 3 1 4096 0),
       Zio_interrupt])
   \<and> tasks_held (snd (snd (vdev_disk_aio_start release_build (accepting\<lparr>io_submit_ret := 0\<rparr>)
        opened_vdev (request ZIO_TYPE_WRITE)))) = 1
   \<and> buffers_held (snd (snd (vdev_disk_aio_start release_build (accepting\<lparr>io_submit_ret := 0\<rparr>)
        opened_vdev (request ZIO_TYPE_WRITE)))) = 1
   \<and> vdev_disk_aio_start release_build (accepting\<lparr>io_submit_ret := - EIO\<rparr>) opened_vdev
       (request ZIO_TYPE_READ) =
     (Returned (), (request ZIO_TYPE_READ)\<lparr>io_error := EIO\<rparr>,
      [Kmem_alloc_task, Abd_borrow_buf 1 4096, Io_submit (Iocb_pread 3 1 4096 0),
       Zio_interrupt])
   \<and> tasks_held (snd (snd (vdev_disk_aio_start release_build (accepting\<lparr>io_submit_ret := - EIO\<rparr>)
        opened_vdev (request ZIO_TYPE_READ)))) = 1
   \<and> buffers_held (snd (snd (vdev_disk_aio_start release_build (accepting\<lparr>io_submit_ret := - EIO\<rparr>)
        opened_vdev (request ZIO_TYPE_READ)))) = 1"
  by (simp add: start_defs sample_defs errno_defs held_defs)

subsection \<open>Control requests at submission\<close>

text \<open>
  Claim C5, as stated, fails on the code: it says that a control request whose
  command is not the flush command is settled with no error recorded. On a readable
  device \<open>vdev_disk_aio_start\<close> writes \<open>ENOTSUP\<close> into the error field before it
  calls \<open>zio_execute\<close>; the request below enters with error 0 and leaves with 95.
\<close>

theorem start_other_control_records_enotsup:
  "io_cmd (request ZIO_TYPE_IOCTL) \<noteq> DKIOCFLUSHWRITECACHE release_build \<and>
   io_error (request ZIO_TYPE_IOCTL) = 0 \<and>
   io_error (fst (snd (vdev_disk_aio_start release_build accepting opened_vdev
     (request ZIO_TYPE_IOCTL)))) = 95"
  by (simp add: start_defs sample_defs errno_defs)

text \<open>
  Claim C5, amended: for every control request on a readable device whose command is
  not the flush command, submission records \<open>ENOTSUP\<close> on the request and settles it
  at once through the direct continuation \<open>zio_execute\<close>; it makes no other call, so
  no task is allocated and nothing is submitted to the kernel.
\<close>

theorem start_other_control_settled_directly:
  assumes "io_type zio = ZIO_TYPE_IOCTL"
    and "io_cmd zio \<noteq> DKIOCFLUSHWRITECACHE b"
    and "vdev_readable env"
  shows "vdev_disk_aio_start b env vd zio =
    (Returned (), zio\<lparr>io_error := ENOTSUP\<rparr>, [Zio_execute])"
  using assms by (simp add: vdev_disk_aio_start_def check_operation_def SET_ERROR_def)

text \<open>The amended claim C5 at a control request with command 0 on a readable device.\<close>

theorem start_other_control_settled_directly_witness:
  "io_type (request ZIO_TYPE_IOCTL) = ZIO_TYPE_IOCTL \<and>
   io_cmd (request ZIO_TYPE_IOCTL) \<noteq> DKIOCFLUSHWRITECACHE release_build \<and>
   vdev_readable accepting \<and>
   vdev_disk_aio_start release_build accepting opened_vdev (request ZIO_TYPE_IOCTL) =
     (Returned (), (request ZIO_TYPE_IOCTL)\<lparr>io_error := ENOTSUP\<rparr>, [Zio_execute])"
proof -
  have kind: "io_type (request ZIO_TYPE_IOCTL) = ZIO_TYPE_IOCTL"
    by (simp add: request_def)
  have cmd: "io_cmd (request ZIO_TYPE_IOCTL) \<noteq> DKIOCFLUSHWRITECACHE release_build"
    by (simp add: request_def release_build_def)
  have readable: "vdev_readable accepting"
    by (simp add: accepting_def)
  from start_other_control_settled_directly [OF kind cmd readable, of opened_vdev]
  show ?thesis using kind cmd readable by simp
qed

subsection \<open>Completion of control operations\<close>








subsection \<open>The two ways back into the pipeline\<close>

text \<open>
  \<open>zio_interrupt\<close> is the deferred (asynchronous) continuation and \<open>zio_execute\<close> the
  direct (synchronous) one, as the comment at lines 192-196 says.
\<close>

lemma callbacks_simps [simp]:
  "callbacks [] = []"
  "callbacks (Zio_interrupt # evs) = Zio_interrupt # callbacks evs"
  "callbacks (Zio_execute # evs) = Zio_execute # callbacks evs"
  "callbacks (Kmem_alloc_task # evs) = callbacks evs"
  "callbacks (Kmem_free_task # evs) = callbacks evs"
  "callbacks (Abd_borrow_buf a n # evs) = callbacks evs"
  "callbacks (Abd_borrow_buf_copy a n # evs) = callbacks evs"
  "callbacks (Abd_return_buf a p n # evs) = callbacks evs"
  "callbacks (Abd_return_buf_copy a p n # evs) = callbacks evs"
  "callbacks (Io_submit c # evs) = callbacks evs"
  by (simp_all add: callbacks_def)

lemma done_callbacks:
  assumes "io_type (task_zio task) = ZIO_TYPE_READ \<or> io_type (task_zio task) = ZIO_TYPE_WRITE \<or>
           io_type (task_zio task) = ZIO_TYPE_IOCTL"
  shows "callbacks (snd (snd (vdev_disk_aio_done b task res))) =
           (if io_type (task_zio task) = ZIO_TYPE_READ then [Zio_interrupt] else [Zio_execute])"
  using assms by (auto simp add: done_defs Let_def)

lemma start_callbacks:
  assumes "io_type zio = ZIO_TYPE_READ \<or> io_type zio = ZIO_TYPE_WRITE \<or>
           io_type zio = ZIO_TYPE_IOCTL"
    and "vdev_tsd vd = Some vda"
  shows "callbacks (snd (snd (vdev_disk_aio_start b env vd zio))) =
           (if io_type zio = ZIO_TYPE_IOCTL \<and> \<not> vdev_readable env then [Zio_interrupt]
            else if io_type zio = ZIO_TYPE_IOCTL \<and>
                    (io_cmd zio \<noteq> DKIOCFLUSHWRITECACHE b \<or> zfs_nocacheflush env)
              then [Zio_execute]
            else if io_submit_ret env \<le> 0 then [Zio_interrupt]
            else [])"
  using assms by (auto simp add: start_defs Let_def)

text \<open>
  Claim C7, as stated, fails on the code: it says that every immediate-failure
  settlement made at submission time uses the direct continuation. A write that the
  kernel refuses with zero accepted is settled through \<open>zio_interrupt\<close>, the deferred
  one, and \<open>zio_execute\<close> is not called.
\<close>

theorem start_refused_write_uses_deferred:
  "callbacks (snd (snd (vdev_disk_aio_start release_build (accepting\<lparr>io_submit_ret := 0\<rparr>)
     opened_vdev (request ZIO_TYPE_WRITE)))) = [Zio_interrupt]"
  by (simp add: start_defs sample_defs errno_defs)

text \<open>
  Claim C7, amended: after the error field is settled, a completed read re-enters the
  pipeline through the deferred continuation and a completed write or control through
  the direct one. At submission time a read, write or control request on an open
  device is settled through the direct continuation only when it is a control request
  on a readable device whose command is not the flush command or for which cache
  flushing is disabled; the failures settled at submission time (control request on an
  unreadable device, submission refused by the kernel with a zero or negative return)
  use the deferred continuation, and an accepted submission calls neither.
\<close>

theorem reentry_paths:
  assumes "io_type zio = ZIO_TYPE_READ \<or> io_type zio = ZIO_TYPE_WRITE \<or>
           io_type zio = ZIO_TYPE_IOCTL"
    and "vdev_tsd vd = Some vda"
    and "task_zio task = zio"
  shows "callbacks (snd (snd (vdev_disk_aio_done b task res))) =
           (if io_type zio = ZIO_TYPE_READ then [Zio_interrupt] else [Zio_execute])
     \<and> callbacks (snd (snd (vdev_disk_aio_start b env vd zio))) =
           (if io_type zio = ZIO_TYPE_IOCTL \<and> \<not> vdev_readable env then [Zio_interrupt]
            else if io_type zio = ZIO_TYPE_IOCTL \<and>
                    (io_cmd zio \<noteq> DKIOCFLUSHWRITECACHE b \<or> zfs_nocacheflush env)
              then [Zio_execute]
            else if io_submit_ret env \<le> 0 then [Zio_interrupt]
            else [])"
proof
  show "callbacks (snd (snd (vdev_disk_aio_done b task res))) =
      (if io_type zio = ZIO_TYPE_READ then [Zio_interrupt] else [Zio_execute])"
    using done_callbacks [of task b res] assms(1,3) by simp
next
  show "callbacks (snd (snd (vdev_disk_aio_start b env vd zio))) =
      (if io_type zio = ZIO_TYPE_IOCTL \<and> \<not> vdev_readable env then [Zio_interrupt]
       else if io_type zio = ZIO_TYPE_IOCTL \<and>
               (io_cmd zio \<noteq> DKIOCFLUSHWRITECACHE b \<or> zfs_nocacheflush env)
         then [Zio_execute]
       else if io_submit_ret env \<le> 0 then [Zio_interrupt]
       else [])"
    using assms(1,2) by (rule start_callbacks)
qed

text \<open>
  The amended claim C7 at a read: completed with its full length it re-enters through
  \<open>zio_interrupt\<close>; refused at submission with \<open>-EAGAIN\<close> it is settled through
  \<open>zio_interrupt\<close> as well.
\<close>

theorem reentry_paths_witness:
  "io_type (request ZIO_TYPE_READ) = ZIO_TYPE_READ \<and>
   vdev_tsd opened_vdev = Some \<lparr>vda_fd = 3\<rparr> \<and>
   task_zio (task_of ZIO_TYPE_READ) = request ZIO_TYPE_READ \<and>
   callbacks (snd (snd (vdev_disk_aio_done release_build (task_of ZIO_TYPE_READ) 4096))) = [Zio_interrupt] \<and>
   callbacks (snd (snd (vdev_disk_aio_start release_build (accepting\<lparr>io_submit_ret := - EAGAIN\<rparr>)
     opened_vdev (request ZIO_TYPE_READ)))) = [Zio_interrupt]"
proof -
  have kind: "io_type (request ZIO_TYPE_READ) = ZIO_TYPE_READ \<or>
      io_type (request ZIO_TYPE_READ) = ZIO_TYPE_WRITE \<or>
      io_type (request ZIO_TYPE_READ) = ZIO_TYPE_IOCTL"
    by (simp add: request_def)
  have handle: "vdev_tsd opened_vdev = Some \<lparr>vda_fd = 3\<rparr>"
    by (simp add: opened_vdev_def)
  have req: "task_zio (task_of ZIO_TYPE_READ) = request ZIO_TYPE_READ"
    by (simp add: task_of_def)
  from reentry_paths [OF kind handle req, where res = 4096 and b = release_build
      and env = "accepting\<lparr>io_submit_ret := - EAGAIN\<rparr>"]
  show ?thesis
    using handle req by (simp add: request_def accepting_def EAGAIN_def)
qed

subsection \<open>Opening a device\<close>

lemma errno_after_pos: "0 < e \<Longrightarrow> errno_positive r \<Longrightarrow> 0 < errno_after e r"
  by (cases r) simp_all

lemma errno_after_nonzero [simp]:
  "0 < e \<Longrightarrow> errno_positive r \<Longrightarrow> errno_after e r \<noteq> 0"
  using errno_after_pos [of e r] by simp

text \<open>
  Claim C4 says that an open that fails in one of the three geometry queries unwinds
  fully: on a fresh open the descriptor is closed, the handle is discarded and no
  handle stays attached to the vdev. The failure branches at lines 126-140 call
  \<open>close\<close> and set \<open>vs_aux\<close>, and stop there: they neither free the handle nor
  clear \<open>vdev_tsd\<close>. On the fresh open below, whose sector-size query fails with
  \<open>ENOTTY\<close>, descriptor 3 is closed and the handle holding it is still allocated
  and attached when the function returns. The branch for a failing \<open>open\<close> (lines
  118-122) does free the handle and attaches nothing.
\<close>

theorem open_geometry_failure_leaves_handle_attached:
  "vdev_tsd fresh_vdev = None \<and>
   vdev_disk_aio_open release_build (good_disk\<lparr>blkssz_reply := Fail ENOTTY\<rparr>) fresh_vdev
       no_geom =
     (Returned ENOTTY,
      fresh_vdev\<lparr>vdev_tsd := Some \<lparr>vda_fd = 3\<rparr>, vs_aux := VDEV_AUX_OPEN_FAILED\<rparr>, no_geom,
      [Kmem_alloc_vda, Sys_open ''/dev/sdb'' True, Sys_ioctl 3 BLKSSZGET, Sys_close 3]) \<and>
   handles_held (snd (snd (snd (vdev_disk_aio_open release_build
     (good_disk\<lparr>blkssz_reply := Fail ENOTTY\<rparr>) fresh_vdev no_geom)))) = 1 \<and>
   vdev_disk_aio_open release_build (good_disk\<lparr>open_reply := Fail ENXIO\<rparr>) fresh_vdev
       no_geom =
     (Returned ENXIO, fresh_vdev\<lparr>vs_aux := VDEV_AUX_OPEN_FAILED\<rparr>, no_geom,
      [Kmem_alloc_vda, Sys_open ''/dev/sdb'' True, Kmem_free_vda]) \<and>
   handles_held (snd (snd (snd (vdev_disk_aio_open release_build
     (good_disk\<lparr>open_reply := Fail ENXIO\<rparr>) fresh_vdev no_geom)))) = 0"
  by (simp add: open_defs sample_defs errno_defs handles_held_def)

text \<open>
  The same branches run on a reopen of an existing handle: the descriptor is closed
  there too, and the handle, now holding a closed descriptor, stays attached.
\<close>

lemma open_reopen_failure_closes_descriptor:
  "vdev_tsd opened_vdev = Some \<lparr>vda_fd = 3\<rparr> \<and> vdev_reopening opened_vdev \<and>
   vdev_disk_aio_open release_build (good_disk\<lparr>blkssz_reply := Fail ENOTTY\<rparr>) opened_vdev
       no_geom =
     (Returned ENOTTY, opened_vdev\<lparr>vs_aux := VDEV_AUX_OPEN_FAILED\<rparr>, no_geom,
      [Sys_ioctl 3 BLKSSZGET, Sys_close 3])"
  by (simp add: open_defs sample_defs errno_defs)

subsection \<open>Geometry of an opened device\<close>

declare highbit_nat.simps [simp del]

lemma highbit_nat_pos: "0 < n \<Longrightarrow> 0 < highbit_nat n"
  by (subst highbit_nat.simps) simp

lemma highbit_nat_upper: "n < 2 ^ highbit_nat n"
proof (induction n rule: highbit_nat.induct)
  case (1 n)
  show ?case
  proof (cases "n = 0")
    case True
    then show ?thesis by simp
  next
    case False
    with 1 have "n div 2 < 2 ^ highbit_nat (n div 2)"
      by simp
    then have "n < 2 * 2 ^ highbit_nat (n div 2)"
      by linarith
    with False show ?thesis
      by (subst highbit_nat.simps) simp
  qed
qed

lemma highbit_nat_lower: "0 < n \<Longrightarrow> 2 ^ (highbit_nat n - 1) \<le> n"
proof (induction n rule: highbit_nat.induct)
  case (1 n)
  then have n: "n \<noteq> 0"
    by simp
  show ?case
  proof (cases "n div 2 = 0")
    case True
    then have "highbit_nat (n div 2) = 0"
      by (subst highbit_nat.simps) simp
    with n have "highbit_nat n = 1"
      by (subst highbit_nat.simps) simp
    with 1 show ?thesis
      by simp
  next
    case False
    with 1 n have ih: "2 ^ (highbit_nat (n div 2) - 1) \<le> n div 2"
      by simp
    from False have "0 < highbit_nat (n div 2)"
      by (simp add: highbit_nat_pos)
    then have "(2::nat) ^ highbit_nat (n div 2) = 2 * 2 ^ (highbit_nat (n div 2) - 1)"
      by (cases "highbit_nat (n div 2)") simp_all
    with ih have "2 ^ highbit_nat (n div 2) \<le> n"
      by linarith
    with n show ?thesis
      by (subst highbit_nat.simps) simp
  qed
qed

lemma highbit_nat_le:
  assumes "n < 2 ^ k"
  shows "highbit_nat n \<le> k"
proof (cases "n = 0")
  case True
  then show ?thesis
    by (subst highbit_nat.simps) simp
next
  case False
  then have "(2::nat) ^ (highbit_nat n - 1) \<le> n"
    using highbit_nat_lower [of n] by simp
  with assms have "(2::nat) ^ (highbit_nat n - 1) < 2 ^ k"
    by linarith
  then have "highbit_nat n - 1 < k"
    by simp
  then show ?thesis
    by linarith
qed

text \<open>The exponent stored by line 142 brackets a non-zero size between two powers of 2.\<close>

lemma ashift_of_highbit64:
  fixes x :: "64 word"
  assumes "x \<noteq> 0"
  defines "a \<equiv> (word_of_int (highbit64 x - 1) :: 64 word)"
  shows "2 ^ unat a \<le> unat x" and "unat x < 2 ^ (unat a + 1)"
proof -
  have pos: "0 < unat x"
    using assms(1) by (simp add: unat_gt_0)
  have "unat x < 2 ^ 64"
    using unsigned_less [of x] by simp
  then have le: "highbit_nat (unat x) \<le> 64"
    by (rule highbit_nat_le)
  have hp: "0 < highbit_nat (unat x)"
    using pos by (rule highbit_nat_pos)
  have "highbit64 x - 1 = int (highbit_nat (unat x) - 1)"
    using hp by (simp add: highbit64_def)
  then have "a = word_of_nat (highbit_nat (unat x) - 1)"
    by (simp add: a_def)
  moreover have "highbit_nat (unat x) - 1 < 2 ^ 64"
    using le by simp
  ultimately have ua: "unat a = highbit_nat (unat x) - 1"
    by (simp add: unat_of_nat)
  show "2 ^ unat a \<le> unat x"
    using highbit_nat_lower [OF pos] by (simp add: ua)
  have "unat a + 1 = highbit_nat (unat x)"
    using hp ua by simp
  then show "unat x < 2 ^ (unat a + 1)"
    by (simp only: highbit_nat_upper)
qed

lemma floor_log2_unat:
  fixes x a :: "64 word"
  assumes "2 ^ unat a \<le> unat x" and "unat x < 2 ^ (unat a + 1)"
  shows "int (unat a) = \<lfloor>log 2 (real (unat x))\<rfloor>"
proof -
  have "\<lfloor>log (real 2) (real (unat x))\<rfloor> = int (unat a)"
    using assms by (intro floor_log_nat_eq_if) simp_all
  then show ?thesis
    by simp
qed

lemma highbit64_512: "highbit64 512 = 10"
  unfolding highbit64_def by code_simp

text \<open>
  Under the contract of the operating system, a return value of 0 means that the
  three queries succeeded and the out-parameters hold what line 142 and 143 compute.
\<close>

lemma open_success:
  assumes "os_contract os"
    and "vdev_disk_aio_open b os vd g = (Returned 0, vd', g', evs)"
  shows "\<exists>ssz sz. blkssz_reply os = Ok ssz \<and> blkgetsize_reply os = Ok sz \<and>
           g' = g\<lparr>psize := sz, max_psize := sz,
                 ashift := word_of_int (highbit64 (max ssz (SPA_MINBLOCKSIZE b)) - 1)\<rparr>"
  using assms
  by (auto simp add: open_defs os_contract_def errno_defs Let_def
       split: option.splits if_splits reply.splits)

text \<open>
  Claim C8: for every successful open, the sector-size output \<open>ashift\<close> is
  \<open>floor(log2(max(reported sector size, minimum block size)))\<close>; in particular, when
  the reported size is smaller than the minimum, it is the floor of log2 of the
  minimum block size. The minimum block size is taken to be non-zero.
\<close>

theorem open_ashift_floor_log2:
  assumes "os_contract os" and "SPA_MINBLOCKSIZE b \<noteq> 0"
    and "fst (vdev_disk_aio_open b os vd g) = Returned 0"
  shows "\<exists>ssz. blkssz_reply os = Ok ssz \<and>
      int (unat (ashift (fst (snd (snd (vdev_disk_aio_open b os vd g)))))) =
        \<lfloor>log 2 (real (unat (max ssz (SPA_MINBLOCKSIZE b))))\<rfloor> \<and>
      (ssz < SPA_MINBLOCKSIZE b \<longrightarrow>
        int (unat (ashift (fst (snd (snd (vdev_disk_aio_open b os vd g)))))) =
          \<lfloor>log 2 (real (unat (SPA_MINBLOCKSIZE b)))\<rfloor>)"
proof -
  obtain vd' g' evs where r: "vdev_disk_aio_open b os vd g = (Returned 0, vd', g', evs)"
    using assms(3) by (metis fst_conv surj_pair)
  from open_success [OF assms(1) r] obtain ssz sz where
    ssz: "blkssz_reply os = Ok ssz" and
    g': "g' = g\<lparr>psize := sz, max_psize := sz,
                 ashift := word_of_int (highbit64 (max ssz (SPA_MINBLOCKSIZE b)) - 1)\<rparr>"
    by blast
  let ?m = "max ssz (SPA_MINBLOCKSIZE b)"
  have nz: "?m \<noteq> 0"
    using assms(2) by (metis max.cobounded2 word_le_0_iff)
  have a: "ashift g' = word_of_int (highbit64 ?m - 1)"
    by (simp add: g')
  have "int (unat (ashift g')) = \<lfloor>log 2 (real (unat ?m))\<rfloor>"
    unfolding a using ashift_of_highbit64 [OF nz] by (rule floor_log2_unat)
  moreover have "ssz < SPA_MINBLOCKSIZE b \<longrightarrow> ?m = SPA_MINBLOCKSIZE b"
    by (simp add: max_absorb2 less_imp_le)
  ultimately show ?thesis
    using ssz by (auto simp add: r)
qed

text \<open>
  Claim C8 at a device that reports 256-byte sectors under a minimum block size of
  512: the open succeeds and \<open>ashift\<close> is 9.
\<close>

theorem open_ashift_floor_log2_witness:
  "os_contract (good_disk\<lparr>blkssz_reply := Ok 256\<rparr>) \<and> SPA_MINBLOCKSIZE release_build \<noteq> 0 \<and>
   fst (vdev_disk_aio_open release_build (good_disk\<lparr>blkssz_reply := Ok 256\<rparr>) fresh_vdev no_geom)
     = Returned 0 \<and>
   (256 :: 64 word) < SPA_MINBLOCKSIZE release_build \<and>
   ashift (fst (snd (snd (vdev_disk_aio_open release_build (good_disk\<lparr>blkssz_reply := Ok 256\<rparr>)
     fresh_vdev no_geom)))) = 9 \<and>
   (9 :: int) = \<lfloor>log 2 (real (unat (SPA_MINBLOCKSIZE release_build)))\<rfloor>"
proof -
  let ?os = "good_disk\<lparr>blkssz_reply := Ok 256\<rparr>"
  have h1: "os_contract ?os"
    by (simp add: os_contract_def good_disk_def)
  have h2: "SPA_MINBLOCKSIZE release_build \<noteq> 0"
    by (simp add: release_build_def)
  have h3: "fst (vdev_disk_aio_open release_build ?os fresh_vdev no_geom) = Returned 0"
    by (simp add: open_defs sample_defs)
  have v: "ashift (fst (snd (snd (vdev_disk_aio_open release_build ?os fresh_vdev no_geom)))) = 9"
    by (simp add: open_defs sample_defs highbit64_512)
  have lt: "(256 :: 64 word) < SPA_MINBLOCKSIZE release_build"
    by (simp add: release_build_def)
  from open_ashift_floor_log2 [OF h1 h2 h3] obtain ssz where
    ssz: "blkssz_reply ?os = Ok ssz" and
    small: "ssz < SPA_MINBLOCKSIZE release_build \<longrightarrow>
      int (unat (ashift (fst (snd (snd
        (vdev_disk_aio_open release_build ?os fresh_vdev no_geom)))))) =
        \<lfloor>log 2 (real (unat (SPA_MINBLOCKSIZE release_build)))\<rfloor>"
    by blast
  from ssz have "ssz = 256"
    by (simp add: good_disk_def)
  with small lt have "int (unat (9 :: 64 word)) =
      \<lfloor>log 2 (real (unat (SPA_MINBLOCKSIZE release_build)))\<rfloor>"
    unfolding v by blast
  then have "(9 :: int) = \<lfloor>log 2 (real (unat (SPA_MINBLOCKSIZE release_build)))\<rfloor>"
    by simp
  with h1 h2 h3 lt v show ?thesis
    by blast
qed

text \<open>
  Claim C10: for every successful open, the max-physical-size output equals the
  physical-size output, which is the size the device reported.
\<close>

theorem open_max_psize_equals_psize:
  assumes "os_contract os" and "fst (vdev_disk_aio_open b os vd g) = Returned 0"
  shows "max_psize (fst (snd (snd (vdev_disk_aio_open b os vd g)))) =
         psize (fst (snd (snd (vdev_disk_aio_open b os vd g)))) \<and>
         blkgetsize_reply os = Ok (psize (fst (snd (snd (vdev_disk_aio_open b os vd g)))))"
proof -
  obtain vd' g' evs where r: "vdev_disk_aio_open b os vd g = (Returned 0, vd', g', evs)"
    using assms(2) by (metis fst_conv surj_pair)
  from open_success [OF assms(1) r] show ?thesis
    by (auto simp add: r)
qed

text \<open>Claim C10 at a 1 MiB device: both outputs are 1048576.\<close>

theorem open_max_psize_equals_psize_witness:
  "os_contract good_disk \<and>
   fst (vdev_disk_aio_open release_build good_disk fresh_vdev no_geom) = Returned 0 \<and>
   max_psize (fst (snd (snd (vdev_disk_aio_open release_build good_disk fresh_vdev no_geom))))
     = 1048576 \<and>
   psize (fst (snd (snd (vdev_disk_aio_open release_build good_disk fresh_vdev no_geom))))
     = 1048576"
proof -
  have h1: "os_contract good_disk"
    by (simp add: os_contract_def good_disk_def)
  have h2: "fst (vdev_disk_aio_open release_build good_disk fresh_vdev no_geom) = Returned 0"
    by (simp add: open_defs sample_defs)
  from open_max_psize_equals_psize [OF h1 h2] show ?thesis
    using h1 h2 by (auto simp add: good_disk_def)
qed

subsection \<open>Teardown of the context\<close>

lemmas context_defs = step_def ctl_step_def poller_step_def initial_def kernel_ok_def
  release_build_def waiting_schedule_def teardown_schedule_def EINTR_def AIO_QUEUE_DEPTH_def

lemma teardown_inv_initial: "teardown_inv initial"
  by (simp add: teardown_inv_def initial_def)

text \<open>
  The controlling thread keeps the invariant because the only value it ever stores in
  \<open>poller_tid\<close> is the non-zero thread identity, before \<open>vdev_disk_aio_fini\<close> starts.
\<close>

lemma teardown_inv_ctl_step:
  assumes "thread_create_ret k \<noteq> 0" and "teardown_inv s"
  shows "teardown_inv (ctl_step b k s)"
  using assms by (cases "cpc s") (auto simp add: teardown_inv_def ctl_step_def)

text \<open>
  The poller keeps it because the statement that clears \<open>poller_tid\<close> is the last
  one before \<open>thread_exit\<close>.
\<close>

lemma teardown_inv_poller_step:
  assumes "teardown_inv s"
  shows "teardown_inv (poller_step b nr s)"
  using assms by (cases "ppc s") (auto simp add: teardown_inv_def poller_step_def)

lemma teardown_inv_step:
  assumes "thread_create_ret k \<noteq> 0" and "teardown_inv s"
  shows "teardown_inv (step b k a s)"
  using assms
  by (cases a) (simp_all add: step_def teardown_inv_ctl_step teardown_inv_poller_step)

lemma teardown_inv_run:
  assumes "thread_create_ret k \<noteq> 0" and "teardown_inv s"
  shows "teardown_inv (run b k sched s)"
  using assms(2)
  by (induction sched arbitrary: s) (simp_all add: teardown_inv_step [OF assms(1)])

lemma fini_destroying_entered: "fini_destroying c \<Longrightarrow> fini_entered c"
  by (cases c) simp_all

text \<open>
  Claim C9: in every execution of \<open>vdev_disk_aio_init\<close> followed by
  \<open>vdev_disk_aio_fini\<close>, under every interleaving with the poller and whatever
  \<open>io_setup\<close> and \<open>io_getevents\<close> return (\<open>thread_create\<close> returns a non-zero
  identity), the stop flag is set as soon as \<open>vdev_disk_aio_fini\<close> is past its first
  statement; while \<open>poller_tid\<close> is not 0 it sleeps 100 ms and tests again; when it
  is at or past \<open>io_destroy\<close> the poller has cleared \<open>poller_tid\<close> and is out of its
  loop (or was never created); and the queue is never in the destroyed state while
  the poller is still running.
\<close>

theorem fini_destroys_queue_after_poller:
  assumes "thread_create_ret k \<noteq> 0" and "s = run b k sched initial"
  shows "(fini_entered (cpc s) \<longrightarrow> stop_polling s) \<and>
         (fini_destroying (cpc s) \<longrightarrow> poller_tid s = 0 \<and> \<not> poller_running (ppc s)) \<and>
         (queue s = Queue_destroyed \<longrightarrow> fini_destroying (cpc s)) \<and>
         (poller_running (ppc s) \<longrightarrow> queue s \<noteq> Queue_destroyed) \<and>
         (cpc s = Fini_test_tid \<and> poller_tid s \<noteq> 0 \<and> \<not> aborted s \<longrightarrow>
            run b k [Run_ctl, Run_ctl] s = s\<lparr>slept_ns := slept_ns s + 100000000\<rparr>)"
proof -
  have inv: "teardown_inv s"
    unfolding assms(2) using assms(1) teardown_inv_initial by (rule teardown_inv_run)
  have stop: "fini_entered (cpc s) \<longrightarrow> stop_polling s"
    using inv by (simp add: teardown_inv_def)
  have left: "fini_destroying (cpc s) \<longrightarrow> poller_tid s = 0 \<and> \<not> poller_running (ppc s)"
    using inv fini_destroying_entered [of "cpc s"] by (auto simp add: teardown_inv_def)
  have destroyed: "queue s = Queue_destroyed \<longrightarrow> fini_destroying (cpc s)"
    using inv by (auto simp add: teardown_inv_def)
  have running: "poller_running (ppc s) \<longrightarrow> queue s \<noteq> Queue_destroyed"
    using left destroyed by blast
  have sleep: "cpc s = Fini_test_tid \<and> poller_tid s \<noteq> 0 \<and> \<not> aborted s \<longrightarrow>
      run b k [Run_ctl, Run_ctl] s = s\<lparr>slept_ns := slept_ns s + 100000000\<rparr>"
    by (simp add: step_def ctl_step_def)
  from stop left destroyed running sleep show ?thesis
    by blast
qed

text \<open>
  Claim C9 on the two sample schedules. After the first, \<open>vdev_disk_aio_fini\<close> has set
  the flag and is at its test while the poller waits on the queue, which is open; two
  more steps of the controlling thread are one sleep. After the second, the queue is
  destroyed and the poller has cleared \<open>poller_tid\<close> and left its loop.
\<close>

theorem fini_destroys_queue_after_poller_witness:
  "thread_create_ret kernel_ok \<noteq> 0 \<and>
   cpc (run release_build kernel_ok waiting_schedule initial) = Fini_test_tid \<and>
   poller_tid (run release_build kernel_ok waiting_schedule initial) \<noteq> 0 \<and>
   \<not> aborted (run release_build kernel_ok waiting_schedule initial) \<and>
   poller_running (ppc (run release_build kernel_ok waiting_schedule initial)) \<and>
   stop_polling (run release_build kernel_ok waiting_schedule initial) \<and>
   queue (run release_build kernel_ok waiting_schedule initial) \<noteq> Queue_destroyed \<and>
   run release_build kernel_ok [Run_ctl, Run_ctl]
       (run release_build kernel_ok waiting_schedule initial) =
     (run release_build kernel_ok waiting_schedule initial)\<lparr>slept_ns := 100000000\<rparr> \<and>
   queue (run release_build kernel_ok teardown_schedule initial) = Queue_destroyed \<and>
   fini_destroying (cpc (run release_build kernel_ok teardown_schedule initial)) \<and>
   stop_polling (run release_build kernel_ok teardown_schedule initial) \<and>
   poller_tid (run release_build kernel_ok teardown_schedule initial) = 0 \<and>
   \<not> poller_running (ppc (run release_build kernel_ok teardown_schedule initial))"
proof -
  let ?w = "run release_build kernel_ok waiting_schedule initial"
  let ?t = "run release_build kernel_ok teardown_schedule initial"
  have tid: "thread_create_ret kernel_ok \<noteq> 0"
    by (simp add: kernel_ok_def)
  have w: "cpc ?w = Fini_test_tid" "poller_tid ?w \<noteq> 0" "\<not> aborted ?w"
    "poller_running (ppc ?w)" "slept_ns ?w = 0"
    by (simp_all add: context_defs)
  have t: "queue ?t = Queue_destroyed"
    by (simp add: context_defs)
  note at_w = fini_destroys_queue_after_poller [OF tid refl, of release_build waiting_schedule]
  note at_t = fini_destroys_queue_after_poller [OF tid refl, of release_build teardown_schedule]
  have "stop_polling ?w" and "queue ?w \<noteq> Queue_destroyed"
    and "run release_build kernel_ok [Run_ctl, Run_ctl] ?w = ?w\<lparr>slept_ns := 100000000\<rparr>"
    using at_w w by simp_all
  moreover have "fini_destroying (cpc ?t)" and "stop_polling ?t" and "poller_tid ?t = 0"
    and "\<not> poller_running (ppc ?t)"
    using at_t t fini_destroying_entered by blast+
  ultimately show ?thesis
    using tid w t by blast
qed

end
